theory Spec2Isabelle
  imports Main "HOL-Library.Word"
begin

section \<open>The notification service of the live-streaming backend\<close>

text \<open>
  This theory embeds the class \<open>NotificationService\<close> (the part of
  \<open>src/routes/admin.js\<close> that starts at the line
  \<open>// backend/services/NotificationService.js\<close>): its four in-process maps, the
  Socket.IO event handlers installed by \<open>setupSocketHandlers\<close> and the helper methods the
  handlers call.

  Conventions of the embedding.
  \<^item> Every handler is one function from the state before the event to the state after it,
    paired with the list of effects it produced, in program order. A handler runs to its
    end before the next event is looked at: the interleaving of two handlers at an
    \<open>await\<close> is outside the model.
  \<^item> A JavaScript \<open>Map\<close> is an association list with unique keys in insertion order, a
    \<open>Set\<close> is a duplicate-free list in insertion order.
  \<^item> The two MongoDB collections are association lists from ids to documents. Every call
    of Mongoose may reject; whether it does is read from the environment of the event
    (a rejected call is what an unreachable database or an id that cannot be cast to an
    ObjectId produces).
  \<^item> \<open>new Date()\<close> and \<open>Date.now()\<close> read the field \<open>now\<close> of the environment.
\<close>

subsection \<open>Identifiers and strings\<close>

text \<open>
  Socket ids are the opaque, non-empty tokens Socket.IO hands out (always truthy in
  JavaScript); only their identity matters, so they are numbered. User ids, stream ids and
  user names are compared and copied only. The text of a chat message is a JavaScript
  string, a sequence of UTF-16 code units, because the handler measures and trims it.
\<close>

type_synonym socket_id = nat
type_synonym user_id = string
type_synonym stream_id = string
type_synonym js_string = "16 word list"

definition lit :: "string \<Rightarrow> js_string" where
  "lit cs = map (\<lambda>c. of_nat (of_char c)) cs"

text \<open>White space and line terminators of ECMAScript, as \<open>String.prototype.trim\<close> removes them.\<close>

definition is_js_space :: "16 word \<Rightarrow> bool" where
  "is_js_space c \<longleftrightarrow>
     c \<in> {0x09, 0x0A, 0x0B, 0x0C, 0x0D, 0x20, 0xA0, 0x1680, 0x2028, 0x2029, 0x202F,
          0x205F, 0x3000, 0xFEFF}
     \<or> (0x2000 \<le> c \<and> c \<le> 0x200A)"

definition trim :: "js_string \<Rightarrow> js_string" where
  "trim m = rev (dropWhile is_js_space (rev (dropWhile is_js_space m)))"

fun js_includes :: "js_string \<Rightarrow> js_string \<Rightarrow> bool" where
  "js_includes [] p = (p = [])"
| "js_includes (c # cs) p = (take (length p) (c # cs) = p \<or> js_includes cs p)"

subsection \<open>JavaScript maps and sets\<close>

fun map_set :: "'k \<Rightarrow> 'v \<Rightarrow> ('k \<times> 'v) list \<Rightarrow> ('k \<times> 'v) list" where
  "map_set k v [] = [(k, v)]"
| "map_set k v (p # ps) = (if fst p = k then (k, v) # ps else p # map_set k v ps)"

definition map_delete :: "'k \<Rightarrow> ('k \<times> 'v) list \<Rightarrow> ('k \<times> 'v) list" where
  "map_delete k m = filter (\<lambda>p. fst p \<noteq> k) m"

definition map_get :: "('k \<times> 'v) list \<Rightarrow> 'k \<Rightarrow> 'v option" where
  "map_get m k = map_of m k"

definition map_has :: "('k \<times> 'v) list \<Rightarrow> 'k \<Rightarrow> bool" where
  "map_has m k \<longleftrightarrow> map_of m k \<noteq> None"

definition map_keys :: "('k \<times> 'v) list \<Rightarrow> 'k list" where
  "map_keys m = map fst m"

definition set_add :: "'a \<Rightarrow> 'a list \<Rightarrow> 'a list" where
  "set_add x xs = (if x \<in> set xs then xs else xs @ [x])"

definition set_delete :: "'a \<Rightarrow> 'a list \<Rightarrow> 'a list" where
  "set_delete x xs = removeAll x xs"

subsection \<open>Documents, notifications and events sent to clients\<close>

text \<open>
  The fields of a user document and of a stream document that the service reads or writes.
  \<open>isChatBanned\<close> is read by the chat handler and written by \<open>banUserFromChat\<close>.
\<close>

record user_doc =
  isOnline :: bool
  lastSeen :: nat
  isStreamer :: bool
  isChatBanned :: bool
  followers :: "user_id list"
  avatar :: string

record stream_doc =
  viewerCount :: nat
  lastViewerUpdate :: nat
  streamer :: user_id

record user_info =
  userId :: user_id
  username :: string
  socketId :: socket_id
  connectedAt :: nat

record chat_message =
  cm_id :: nat
  cm_streamId :: stream_id
  cm_userId :: user_id
  cm_username :: string
  cm_message :: js_string
  cm_timestamp :: nat
  cm_avatar :: string

datatype notification_type =
  stream_started | stream_ended | new_follower | user_online | user_offline | chat_mention

datatype notification_data =
  PresenceData user_id string
  | MentionData stream_id chat_message
  | OtherData string

record notification =
  n_type :: notification_type
  n_title :: string
  n_message :: js_string
  n_data :: notification_data
  n_timestamp :: nat

datatype room = StreamRoom stream_id | UserRoom user_id

text \<open>The events of the wire protocol that the modelled handlers send.\<close>

datatype client_event =
  Authenticated
  | AuthenticationError
  | ErrorMsg string
  | StreamJoined stream_id nat
  | ViewerJoined string nat
  | ViewerLeft string nat
  | ViewerCountUpdate stream_id nat
  | NewMessage chat_message
  | Notification notification

text \<open>
  \<open>ToSocket\<close> is \<open>socket.emit\<close>, \<open>ToRoom\<close> is \<open>io.to(room).emit\<close>, \<open>ToRoomExcept\<close> is
  \<open>socket.to(room).emit\<close> (the room without the sending socket). \<open>UnhandledRejection\<close>
  records a promise rejected outside every \<open>try\<close>.
\<close>

datatype effect =
  ToSocket socket_id client_event
  | ToRoom room client_event
  | ToRoomExcept room socket_id client_event
  | UnhandledRejection

subsection \<open>State and environment\<close>

record state =
  connectedUsers :: "(user_id \<times> socket_id) list"
  userSockets :: "(socket_id \<times> user_info) list"
  streamRooms :: "(stream_id \<times> socket_id list) list"
  notificationQueue :: "(user_id \<times> notification list) list"
  ioRooms :: "(socket_id \<times> room) list"
  timers :: "(nat \<times> user_id \<times> string) list"
  users :: "(user_id \<times> user_doc) list"
  streams :: "(stream_id \<times> stream_doc) list"

text \<open>
  \<open>ioRooms\<close> is the room membership kept by Socket.IO itself (\<open>socket.join\<close>,
  \<open>socket.leave\<close>); \<open>timers\<close> holds the callbacks scheduled with \<open>setTimeout\<close> that have not
  run yet, each with the time at which it is due, in scheduling order.

  The environment of one event: the time, the outcome of each kind of Mongoose call the
  handler may make, and the string that \<open>toString()\<close> returns for a populated follower
  document (a function of Mongoose, not of this repository).
\<close>

record env =
  now :: nat
  userUpdateOk :: bool
  userFindOk :: bool
  streamUpdateOk :: "stream_id \<Rightarrow> bool"
  streamFindOk :: bool
  populatedToString :: "user_id \<Rightarrow> user_id"

definition init :: state where
  "init = \<lparr>connectedUsers = [], userSockets = [], streamRooms = [], notificationQueue = [],
           ioRooms = [], timers = [], users = [], streams = []\<rparr>"

definition recipients :: "state \<Rightarrow> effect \<Rightarrow> socket_id list" where
  "recipients s e =
     (case e of
        ToSocket sid _ \<Rightarrow> [sid]
      | ToRoom r _ \<Rightarrow> map fst (filter (\<lambda>p. snd p = r) (ioRooms s))
      | ToRoomExcept r sid _ \<Rightarrow> map fst (filter (\<lambda>p. snd p = r \<and> fst p \<noteq> sid) (ioRooms s))
      | UnhandledRejection \<Rightarrow> [])"

subsection \<open>Methods of the service\<close>

text \<open>\<open>sendNotificationToUser\<close>: emit to the personal room of a connected user, queue otherwise.\<close>

definition sendNotificationToUser ::
  "user_id \<Rightarrow> notification \<Rightarrow> state \<Rightarrow> state \<times> effect list" where
  "sendNotificationToUser uid n s =
     (case map_get (connectedUsers s) uid of
        Some sock \<Rightarrow> (s, [ToRoom (UserRoom uid) (Notification n)])
      | None \<Rightarrow>
          (let q = (case map_get (notificationQueue s) uid of None \<Rightarrow> [] | Some q \<Rightarrow> q)
           in (s\<lparr>notificationQueue := map_set uid (q @ [n]) (notificationQueue s)\<rparr>, [])))"

text \<open>A loop \<open>for (const id of ids) await this.sendNotificationToUser(id, notification)\<close>.\<close>

fun sendToEach :: "user_id list \<Rightarrow> notification \<Rightarrow> state \<Rightarrow> state \<times> effect list" where
  "sendToEach [] n s = (s, [])"
| "sendToEach (k # ks) n s =
     (let (s1, e1) = sendNotificationToUser k n s;
          (s2, e2) = sendToEach ks n s1
      in (s2, e1 @ e2))"

definition sendPendingNotifications :: "user_id \<Rightarrow> state \<Rightarrow> state \<times> effect list" where
  "sendPendingNotifications uid s =
     (case map_get (notificationQueue s) uid of
        None \<Rightarrow> (s, [])
      | Some pending \<Rightarrow>
          if length pending > 0
          then (s\<lparr>notificationQueue := map_delete uid (notificationQueue s)\<rparr>,
                map (\<lambda>n. ToRoom (UserRoom uid) (Notification n)) pending)
          else (s, []))"

text \<open>
  \<open>User.findByIdAndUpdate(id, fields)\<close> when it does not reject: the document is changed if
  there is one, and nothing is created otherwise.
\<close>

definition doc_update :: "'k \<Rightarrow> ('d \<Rightarrow> 'd) \<Rightarrow> ('k \<times> 'd) list \<Rightarrow> ('k \<times> 'd) list" where
  "doc_update k f db = (case map_of db k of None \<Rightarrow> db | Some d \<Rightarrow> map_set k (f d) db)"

text \<open>The notification objects built by the two presence methods.\<close>

definition user_online_notification :: "env \<Rightarrow> user_id \<Rightarrow> string \<Rightarrow> notification" where
  "user_online_notification e uid uname =
     \<lparr>n_type = user_online, n_title = ''User Online'',
      n_message = lit uname @ lit '' is now online'',
      n_data = PresenceData uid uname, n_timestamp = now e\<rparr>"

definition user_offline_notification :: "env \<Rightarrow> user_id \<Rightarrow> string \<Rightarrow> notification" where
  "user_offline_notification e uid uname =
     \<lparr>n_type = user_offline, n_title = ''User Offline'',
      n_message = lit uname @ lit '' is now offline'',
      n_data = PresenceData uid uname, n_timestamp = now e\<rparr>"

text \<open>
  \<open>notifyFollowersUserOnline\<close> populates the followers (references to users that do not
  exist are dropped) and uses \<open>followerId.toString()\<close> of each populated document as the
  recipient. \<open>notifyFollowersUserOffline\<close> loads the user without populating and sends to
  the keys of \<open>connectedUsers\<close>.
\<close>

definition notifyFollowersUserOnline ::
  "env \<Rightarrow> user_id \<Rightarrow> string \<Rightarrow> state \<Rightarrow> state \<times> effect list" where
  "notifyFollowersUserOnline e uid uname s =
     (if \<not> userFindOk e then (s, [])
      else case map_of (users s) uid of
        None \<Rightarrow> (s, [])
      | Some user \<Rightarrow>
          (let populated = filter (\<lambda>f. map_of (users s) f \<noteq> None) (followers user) in
           if length populated = 0 then (s, [])
           else
             (let notification = user_online_notification e uid uname
              in if isStreamer user
                 then sendToEach (map (populatedToString e) populated) notification s
                 else (s, []))))"

definition notifyFollowersUserOffline ::
  "env \<Rightarrow> user_id \<Rightarrow> string \<Rightarrow> state \<Rightarrow> state \<times> effect list" where
  "notifyFollowersUserOffline e uid uname s =
     (if \<not> userFindOk e then (s, [])
      else case map_of (users s) uid of
        None \<Rightarrow> (s, [])
      | Some user \<Rightarrow>
          if \<not> isStreamer user then (s, [])
          else
            (let notification = user_offline_notification e uid uname;
                 onlineFollowers = map_keys (connectedUsers s)
             in sendToEach onlineFollowers notification s))"

definition notifyStreamerMention ::
  "env \<Rightarrow> stream_id \<Rightarrow> chat_message \<Rightarrow> state \<Rightarrow> state \<times> effect list" where
  "notifyStreamerMention e stid cm s =
     (if \<not> streamFindOk e then (s, [])
      else case map_of (streams s) stid of
        None \<Rightarrow> (s, [])
      | Some stream \<Rightarrow>
          sendNotificationToUser (streamer stream)
            \<lparr>n_type = chat_mention, n_title = ''Chat Mention'',
             n_message = lit (cm_username cm) @ lit '' mentioned you in chat: '' @ [0x22]
                         @ cm_message cm @ [0x22],
             n_data = MentionData stid cm, n_timestamp = now e\<rparr> s)"

text \<open>
  \<open>updateStreamViewerCount\<close>: the write and the broadcast are in one \<open>try\<close> block, the
  broadcast after the awaited write; the \<open>catch\<close> only logs. It touches the stream
  collection only, so it is given that collection.
\<close>

definition updateStreamViewerCount ::
  "env \<Rightarrow> stream_id \<Rightarrow> nat \<Rightarrow> (stream_id \<times> stream_doc) list
     \<Rightarrow> (stream_id \<times> stream_doc) list \<times> effect list" where
  "updateStreamViewerCount e stid vc db =
     (if streamUpdateOk e stid
      then (doc_update stid (\<lambda>d. d\<lparr>viewerCount := vc, lastViewerUpdate := now e\<rparr>) db,
            [ToRoom (StreamRoom stid) (ViewerCountUpdate stid vc)])
      else (db, []))"

subsection \<open>Event handlers\<close>

definition on_authenticate ::
  "env \<Rightarrow> socket_id \<Rightarrow> user_id \<Rightarrow> string \<Rightarrow> state \<Rightarrow> state \<times> effect list" where
  "on_authenticate e sid uid uname s =
     (let s1 = s\<lparr>userSockets :=
                   map_set sid \<lparr>userId = uid, username = uname, socketId = sid,
                                connectedAt = now e\<rparr> (userSockets s),
                 connectedUsers := map_set uid sid (connectedUsers s),
                 ioRooms := set_add (sid, UserRoom uid) (ioRooms s)\<rparr>
      in if \<not> userUpdateOk e then (s1, [ToSocket sid AuthenticationError])
         else
           (let s2 = s1\<lparr>users :=
                          doc_update uid (\<lambda>d. d\<lparr>isOnline := True, lastSeen := now e\<rparr>)
                            (users s1)\<rparr>;
                (s3, e1) = sendPendingNotifications uid s2;
                (s4, e2) = notifyFollowersUserOnline e uid uname s3
            in (s4, e1 @ [ToSocket sid Authenticated] @ e2)))"

definition on_join_stream ::
  "env \<Rightarrow> socket_id \<Rightarrow> stream_id \<Rightarrow> state \<Rightarrow> state \<times> effect list" where
  "on_join_stream e sid stid s =
     (case map_get (userSockets s) sid of
        None \<Rightarrow> (s, [ToSocket sid (ErrorMsg ''Not authenticated'')])
      | Some userInfo \<Rightarrow>
          (let members = (case map_get (streamRooms s) stid of None \<Rightarrow> [] | Some m \<Rightarrow> m);
               members' = set_add sid members;
               viewerCount = length members';
               (db, e1) = updateStreamViewerCount e stid viewerCount (streams s)
           in (s\<lparr>ioRooms := set_add (sid, StreamRoom stid) (ioRooms s),
                 streamRooms := map_set stid members' (streamRooms s),
                 streams := db\<rparr>,
               e1 @ [ToRoomExcept (StreamRoom stid) sid
                       (ViewerJoined (username userInfo) viewerCount),
                     ToSocket sid (StreamJoined stid viewerCount)])))"

definition on_leave_stream ::
  "env \<Rightarrow> socket_id \<Rightarrow> stream_id \<Rightarrow> state \<Rightarrow> state \<times> effect list" where
  "on_leave_stream e sid stid s =
     (case map_get (userSockets s) sid of
        None \<Rightarrow> (s, [])
      | Some userInfo \<Rightarrow>
          (let s1 = s\<lparr>ioRooms := set_delete (sid, StreamRoom stid) (ioRooms s)\<rparr>
           in case map_get (streamRooms s) stid of
                None \<Rightarrow> (s1, [])
              | Some members \<Rightarrow>
                  (let members' = set_delete sid members;
                       viewerCount = length members';
                       (db, e1) = updateStreamViewerCount e stid viewerCount (streams s)
                   in (s1\<lparr>streamRooms := map_set stid members' (streamRooms s),
                          streams := db\<rparr>,
                       e1 @ [ToRoomExcept (StreamRoom stid) sid
                               (ViewerLeft (username userInfo) viewerCount)]))))"

definition on_chat_message ::
  "env \<Rightarrow> socket_id \<Rightarrow> stream_id \<Rightarrow> js_string option \<Rightarrow> state \<Rightarrow> state \<times> effect list" where
  "on_chat_message e sid stid msg s =
     (case map_get (userSockets s) sid of
        None \<Rightarrow> (s, [ToSocket sid (ErrorMsg ''Not authenticated'')])
      | Some userInfo \<Rightarrow>
          (case msg of
             None \<Rightarrow> (s, [ToSocket sid (ErrorMsg ''Message cannot be empty'')])
           | Some message \<Rightarrow>
               if message = [] \<or> length (trim message) = 0
               then (s, [ToSocket sid (ErrorMsg ''Message cannot be empty'')])
               else if length message > 500
               then (s, [ToSocket sid (ErrorMsg ''Message too long'')])
               else if \<not> userFindOk e
               then (s, [ToSocket sid (ErrorMsg ''Failed to send message'')])
               else case map_of (users s) (userId userInfo) of
                 None \<Rightarrow> (s, [ToSocket sid (ErrorMsg ''Failed to send message'')])
               | Some user \<Rightarrow>
                   if isChatBanned user
                   then (s, [ToSocket sid (ErrorMsg ''You are banned from chat'')])
                   else
                     (let chatMessage =
                        \<lparr>cm_id = now e, cm_streamId = stid, cm_userId = userId userInfo,
                         cm_username = username userInfo, cm_message = trim message,
                         cm_timestamp = now e, cm_avatar = avatar user\<rparr>;
                          e1 = [ToRoom (StreamRoom stid) (NewMessage chatMessage)]
                      in if js_includes message (lit ''@streamer'')
                         then (let (s1, e2) = notifyStreamerMention e stid chatMessage s
                               in (s1, e1 @ e2))
                         else (s, e1))))"

text \<open>
  The loop of the disconnect handler over \<open>this.streamRooms.entries()\<close>: every room that
  holds the socket loses it, writes its new size and tells the room.
\<close>

fun leave_all_rooms ::
  "env \<Rightarrow> socket_id \<Rightarrow> string \<Rightarrow> (stream_id \<times> socket_id list) list
     \<Rightarrow> (stream_id \<times> stream_doc) list
     \<Rightarrow> (stream_id \<times> socket_id list) list \<times> (stream_id \<times> stream_doc) list \<times> effect list"
  where
  "leave_all_rooms e sid uname [] db = ([], db, [])"
| "leave_all_rooms e sid uname ((streamId, socketSet) # rest) db =
     (if sid \<in> set socketSet
      then
        (let socketSet' = set_delete sid socketSet;
             viewerCount = length socketSet';
             (db1, e1) = updateStreamViewerCount e streamId viewerCount db;
             (rest', db2, e2) = leave_all_rooms e sid uname rest db1
         in ((streamId, socketSet') # rest', db2,
             e1 @ [ToRoomExcept (StreamRoom streamId) sid (ViewerLeft uname viewerCount)]
                @ e2))
      else
        (let (rest', db2, e2) = leave_all_rooms e sid uname rest db
         in ((streamId, socketSet) # rest', db2, e2)))"

definition on_disconnect :: "env \<Rightarrow> socket_id \<Rightarrow> state \<Rightarrow> state \<times> effect list" where
  "on_disconnect e sid s =
     (let s0 = s\<lparr>ioRooms := filter (\<lambda>p. fst p \<noteq> sid) (ioRooms s)\<rparr>
      in case map_get (userSockets s0) sid of
        None \<Rightarrow> (s0, [])
      | Some userInfo \<Rightarrow>
          (let (rooms, db, es) =
                 leave_all_rooms e sid (username userInfo) (streamRooms s0) (streams s0)
           in (s0\<lparr>connectedUsers := map_delete (userId userInfo) (connectedUsers s0),
                  userSockets := map_delete sid (userSockets s0),
                  streamRooms := rooms,
                  streams := db,
                  timers := timers s0 @ [(now e + 30000, userId userInfo, username userInfo)]\<rparr>,
               es)))"

text \<open>The callback given to \<open>setTimeout\<close> by the disconnect handler. It has no \<open>try\<close>.\<close>

definition offline_timeout ::
  "env \<Rightarrow> user_id \<Rightarrow> string \<Rightarrow> state \<Rightarrow> state \<times> effect list" where
  "offline_timeout e uid uname s =
     (if map_has (connectedUsers s) uid then (s, [])
      else if \<not> userUpdateOk e then (s, [UnhandledRejection])
      else notifyFollowersUserOffline e uid uname
             (s\<lparr>users := doc_update uid (\<lambda>d. d\<lparr>isOnline := False, lastSeen := now e\<rparr>)
                            (users s)\<rparr>))"

text \<open>The timer that was scheduled first runs once its 30000 ms have passed.\<close>

definition on_timer :: "env \<Rightarrow> state \<Rightarrow> state \<times> effect list" where
  "on_timer e s =
     (case timers s of
        [] \<Rightarrow> (s, [])
      | (due, uid, uname) # rest \<Rightarrow>
          if now e < due then (s, [])
          else offline_timeout e uid uname (s\<lparr>timers := rest\<rparr>))"

subsection \<open>Runs\<close>

datatype event =
  Authenticate socket_id user_id string
  | JoinStream socket_id stream_id
  | LeaveStream socket_id stream_id
  | ChatMessage socket_id stream_id "js_string option"
  | Disconnect socket_id
  | TimerFires

fun step :: "env \<Rightarrow> event \<Rightarrow> state \<Rightarrow> state \<times> effect list" where
  "step e (Authenticate sid uid uname) s = on_authenticate e sid uid uname s"
| "step e (JoinStream sid stid) s = on_join_stream e sid stid s"
| "step e (LeaveStream sid stid) s = on_leave_stream e sid stid s"
| "step e (ChatMessage sid stid msg) s = on_chat_message e sid stid msg s"
| "step e (Disconnect sid) s = on_disconnect e sid s"
| "step e TimerFires s = on_timer e s"

fun run :: "(env \<times> event) list \<Rightarrow> state \<Rightarrow> state \<times> effect list" where
  "run [] s = (s, [])"
| "run ((e, ev) # rest) s =
     (let (s1, e1) = step e ev s;
          (s2, e2) = run rest s1
      in (s2, e1 @ e2))"

subsection \<open>Vocabulary of the properties\<close>

text \<open>The pending notifications of a user: a missing entry of the map is an empty queue.\<close>

definition queue_of :: "state \<Rightarrow> user_id \<Rightarrow> notification list" where
  "queue_of s uid = (case map_get (notificationQueue s) uid of None \<Rightarrow> [] | Some q \<Rightarrow> q)"

text \<open>A sequence of calls of \<open>sendNotificationToUser\<close>, each with its recipient.\<close>

fun sendAll :: "(user_id \<times> notification) list \<Rightarrow> state \<Rightarrow> state \<times> effect list" where
  "sendAll [] s = (s, [])"
| "sendAll ((uid, n) # rest) s =
     (let (s1, e1) = sendNotificationToUser uid n s;
          (s2, e2) = sendAll rest s1
      in (s2, e1 @ e2))"

text \<open>
  The events broadcast to the room of a stream, and the viewer count that
  \<open>viewer-joined\<close>, \<open>viewer-left\<close> and \<open>viewer-count-update\<close> carry.
\<close>

fun to_room :: "stream_id \<Rightarrow> effect \<Rightarrow> client_event option" where
  "to_room stid (ToRoom r ev) = (if r = StreamRoom stid then Some ev else None)"
| "to_room stid (ToRoomExcept r sid ev) = (if r = StreamRoom stid then Some ev else None)"
| "to_room stid (ToSocket sid ev) = None"
| "to_room stid UnhandledRejection = None"


definition room_events :: "stream_id \<Rightarrow> effect list \<Rightarrow> client_event list" where
  "room_events stid es = List.map_filter (to_room stid) es"








text \<open>
  The first two steps of the authenticate handler: the synchronous registration of the
  socket, and the write of the online status when it is not rejected.
\<close>

definition registered :: "env \<Rightarrow> socket_id \<Rightarrow> user_id \<Rightarrow> string \<Rightarrow> state \<Rightarrow> state" where
  "registered e sid uid uname s =
     s\<lparr>userSockets :=
         map_set sid \<lparr>userId = uid, username = uname, socketId = sid, connectedAt = now e\<rparr>
           (userSockets s),
       connectedUsers := map_set uid sid (connectedUsers s),
       ioRooms := set_add (sid, UserRoom uid) (ioRooms s)\<rparr>"

definition marked_online :: "env \<Rightarrow> user_id \<Rightarrow> state \<Rightarrow> state" where
  "marked_online e uid s =
     s\<lparr>users := doc_update uid (\<lambda>d. d\<lparr>isOnline := True, lastSeen := now e\<rparr>) (users s)\<rparr>"

text \<open>The sockets tracked for a stream; a stream without an entry has none.\<close>

definition members_of :: "state \<Rightarrow> stream_id \<Rightarrow> socket_id list" where
  "members_of s stid = (case map_get (streamRooms s) stid of None \<Rightarrow> [] | Some m \<Rightarrow> m)"


subsection \<open>Concrete environments and states\<close>

definition ok_env :: "nat \<Rightarrow> env" where
  "ok_env t = \<lparr>now = t, userUpdateOk = True, userFindOk = True, streamUpdateOk = (\<lambda>_. True),
              streamFindOk = True, populatedToString = (\<lambda>u. u)\<rparr>"

text \<open>Every write rejected, every read answered.\<close>

definition write_fail_env :: "nat \<Rightarrow> env" where
  "write_fail_env t = \<lparr>now = t, userUpdateOk = False, userFindOk = True,
                      streamUpdateOk = (\<lambda>_. False), streamFindOk = True,
                      populatedToString = (\<lambda>u. u)\<rparr>"

definition notice :: "nat \<Rightarrow> notification" where
  "notice k = \<lparr>n_type = new_follower, n_title = ''New Follower'',
             n_message = lit ''someone started following you'',
             n_data = OtherData ''follower'', n_timestamp = k\<rparr>"

definition plain_user :: user_doc where
  "plain_user = \<lparr>isOnline = False, lastSeen = 0, isStreamer = False, isChatBanned = False,
                  followers = [], avatar = ''''\<rparr>"

text \<open>
  A database with a streamer \<open>''s''\<close> followed by \<open>''f''\<close>, a viewer \<open>''x''\<close> who follows
  nobody, and a viewer \<open>''b''\<close> who is banned from chat.
\<close>

definition db_state :: state where
  "db_state = init\<lparr>users :=
     [(''s'', plain_user\<lparr>isStreamer := True, followers := [''f'']\<rparr>),
      (''f'', plain_user), (''x'', plain_user),
      (''b'', plain_user\<lparr>isChatBanned := True\<rparr>)]\<rparr>"

text \<open>Socket 1 after it authenticated as \<open>''x''\<close> on an empty database.\<close>

definition once_authenticated :: state where
  "once_authenticated = fst (on_authenticate (ok_env 1) 1 ''x'' ''Xia'' init)"

text \<open>
  Over \<open>db_state\<close>: socket 1 is the viewer \<open>''x''\<close>, socket 2 the banned viewer \<open>''b''\<close>; in
  \<open>room_state\<close> socket 1 has also joined the stream \<open>''live''\<close>.
\<close>

definition chat_state :: state where
  "chat_state = fst (run [(ok_env 0, Authenticate 1 ''x'' ''Xia''),
                          (ok_env 0, Authenticate 2 ''b'' ''Bo'')] db_state)"

definition room_state :: state where
  "room_state = fst (run [(ok_env 0, Authenticate 1 ''x'' ''Xia''),
                          (ok_env 0, Authenticate 2 ''b'' ''Bo''),
                          (ok_env 1, JoinStream 1 ''live'')] db_state)"



text \<open>
  Over \<open>db_state\<close>: the only socket of the streamer closes at time 1000; the streamer
  comes back on socket 2 at time 2000 and on socket 3 at time 3000; socket 2 closes at time
  4000. Socket 3 stays open.
\<close>

definition reconnect_state :: state where
  "reconnect_state = fst (run [(ok_env 0, Authenticate 9 ''x'' ''Xia''),
                               (ok_env 0, Authenticate 1 ''s'' ''Sam''),
                               (ok_env 1000, Disconnect 1),
                               (ok_env 2000, Authenticate 2 ''s'' ''Sam''),
                               (ok_env 3000, Authenticate 3 ''s'' ''Sam''),
                               (ok_env 4000, Disconnect 2)] db_state)"


section \<open>Properties\<close>

subsection \<open>Maps and the notification methods\<close>

lemma map_of_map_set: "map_of (map_set k v m) = (map_of m)(k \<mapsto> v)"
  by (induction m) auto

lemma map_of_map_delete: "map_of (map_delete k m) = (map_of m)(k := None)"
  by (induction m) (auto simp: map_delete_def)




lemma send_connected: "connectedUsers (fst (sendNotificationToUser uid n s)) = connectedUsers s"
  by (simp add: sendNotificationToUser_def Let_def split: option.splits)

lemma send_queue_offline:
  "map_get (connectedUsers s) U = None \<Longrightarrow>
   queue_of (fst (sendNotificationToUser uid n s)) U = queue_of s U @ (if uid = U then [n] else [])"
  by (auto simp: sendNotificationToUser_def queue_of_def map_get_def map_of_map_set Let_def split: option.splits)

lemma sendAll_connected: "connectedUsers (fst (sendAll calls s)) = connectedUsers s"
proof (induction calls arbitrary: s)
  case Nil
  then show ?case by simp
next
  case (Cons c calls)
  obtain uid n where c: "c = (uid, n)" by (cases c)
  show ?case using Cons[of "fst (sendNotificationToUser uid n s)"] send_connected[of uid n s]
    by (simp add: c case_prod_beta)
qed

lemma sendAll_queue:
  "map_get (connectedUsers s) U = None \<Longrightarrow>
   queue_of (fst (sendAll calls s)) U = queue_of s U @ map snd (filter (\<lambda>c. fst c = U) calls)"
proof (induction calls arbitrary: s)
  case Nil
  then show ?case by simp
next
  case (Cons c calls)
  obtain uid n where c: "c = (uid, n)" by (cases c)
  let ?s1 = "fst (sendNotificationToUser uid n s)"
  have off: "map_get (connectedUsers ?s1) U = None"
    using Cons.prems by (simp add: send_connected)
  have "queue_of (fst (sendAll calls ?s1)) U = queue_of ?s1 U @ map snd (filter (\<lambda>c. fst c = U) calls)"
    by (rule Cons.IH[OF off])
  then show ?case using send_queue_offline[OF Cons.prems, of uid n]
    by (simp add: c case_prod_beta)
qed

lemma send_effects:
  "x \<in> set (snd (sendNotificationToUser k n s)) \<Longrightarrow> x = ToRoom (UserRoom k) (Notification n)"
  by (auto simp: sendNotificationToUser_def Let_def split: option.splits)

lemma send_effects_offline:
  "map_get (connectedUsers s) k = None \<Longrightarrow> snd (sendNotificationToUser k n s) = []"
  by (simp add: sendNotificationToUser_def Let_def)

lemma send_queue_online:
  "map_get (connectedUsers s) U \<noteq> None \<Longrightarrow>
   map_get (notificationQueue (fst (sendNotificationToUser k n s))) U = map_get (notificationQueue s) U"
  by (auto simp: sendNotificationToUser_def Let_def map_get_def map_of_map_set split: option.splits)

lemma sendToEach_connected: "connectedUsers (fst (sendToEach ks n s)) = connectedUsers s"
  by (induction ks arbitrary: s) (simp_all add: case_prod_beta send_connected)

lemma send_ioRooms: "ioRooms (fst (sendNotificationToUser k n s)) = ioRooms s"
  by (simp add: sendNotificationToUser_def Let_def split: option.splits)

lemma sendToEach_ioRooms: "ioRooms (fst (sendToEach ks n s)) = ioRooms s"
  by (induction ks arbitrary: s) (simp_all add: case_prod_beta send_ioRooms)

lemma sendToEach_effects:
  "x \<in> set (snd (sendToEach ks n s)) \<Longrightarrow> \<exists>k. x = ToRoom (UserRoom k) (Notification n)"
proof (induction ks arbitrary: s)
  case Nil
  then show ?case by simp
next
  case (Cons k ks)
  then show ?case by (auto simp: case_prod_beta dest: send_effects)
qed

lemma sendToEach_queue_online:
  "map_get (connectedUsers s) U \<noteq> None \<Longrightarrow>
   map_get (notificationQueue (fst (sendToEach ks n s))) U = map_get (notificationQueue s) U"
proof (induction ks arbitrary: s)
  case Nil
  then show ?case by simp
next
  case (Cons k ks)
  have "map_get (connectedUsers (fst (sendNotificationToUser k n s))) U \<noteq> None"
    using Cons.prems by (simp add: send_connected)
  from Cons.IH[OF this] send_queue_online[OF Cons.prems, of k n]
  show ?case by (simp add: case_prod_beta)
qed

lemma sendAll_effects_offline:
  "map_get (connectedUsers s) U = None \<Longrightarrow>
   ToRoom (UserRoom U) ev \<notin> set (snd (sendAll calls s))"
proof (induction calls arbitrary: s)
  case Nil
  then show ?case by simp
next
  case (Cons c calls)
  obtain uid n where c: "c = (uid, n)" by (cases c)
  have off: "map_get (connectedUsers (fst (sendNotificationToUser uid n s))) U = None"
    using Cons.prems by (simp add: send_connected)
  have "ToRoom (UserRoom U) ev \<notin> set (snd (sendNotificationToUser uid n s))"
    using Cons.prems by (auto simp: sendNotificationToUser_def Let_def split: option.splits)
  with Cons.IH[OF off] show ?case by (simp add: c case_prod_beta)
qed

lemma online_effects:
  "x \<in> set (snd (notifyFollowersUserOnline e uid uname s)) \<Longrightarrow>
   \<exists>k. x = ToRoom (UserRoom k) (Notification (user_online_notification e uid uname))"
  by (auto simp: notifyFollowersUserOnline_def Let_def dest: sendToEach_effects
           split: if_splits option.splits)

lemma online_queue_online:
  "map_get (connectedUsers s) U \<noteq> None \<Longrightarrow>
   map_get (notificationQueue (fst (notifyFollowersUserOnline e uid uname s))) U
     = map_get (notificationQueue s) U"
  by (simp add: notifyFollowersUserOnline_def Let_def sendToEach_queue_online
           split: option.splits)

lemma online_ioRooms: "ioRooms (fst (notifyFollowersUserOnline e uid uname s)) = ioRooms s"
  by (simp add: notifyFollowersUserOnline_def Let_def sendToEach_ioRooms split: option.splits)

lemma pending_effects:
  "snd (sendPendingNotifications uid s) =
     map (\<lambda>n. ToRoom (UserRoom uid) (Notification n)) (queue_of s uid)"
  by (simp add: sendPendingNotifications_def queue_of_def split: option.splits)

lemma pending_queue:
  "queue_of (fst (sendPendingNotifications uid s)) uid = []"
  by (auto simp: sendPendingNotifications_def queue_of_def map_get_def map_of_map_delete split: option.splits)

lemma pending_connected: "connectedUsers (fst (sendPendingNotifications uid s)) = connectedUsers s"
  by (simp add: sendPendingNotifications_def split: option.splits)

lemma pending_ioRooms: "ioRooms (fst (sendPendingNotifications uid s)) = ioRooms s"
  by (simp add: sendPendingNotifications_def split: option.splits)

lemma on_authenticate_fail:
  "\<not> userUpdateOk e \<Longrightarrow>
   on_authenticate e sid uid uname s = (registered e sid uid uname s, [ToSocket sid AuthenticationError])"
  by (simp add: on_authenticate_def registered_def Let_def)

lemma on_authenticate_ok:
  assumes "userUpdateOk e"
  shows "on_authenticate e sid uid uname s =
           (fst (notifyFollowersUserOnline e uid uname
                  (fst (sendPendingNotifications uid
                         (marked_online e uid (registered e sid uid uname s))))),
            snd (sendPendingNotifications uid
                  (marked_online e uid (registered e sid uid uname s)))
              @ [ToSocket sid Authenticated]
              @ snd (notifyFollowersUserOnline e uid uname
                      (fst (sendPendingNotifications uid
                             (marked_online e uid (registered e sid uid uname s))))))"
  using assms
  by (simp add: on_authenticate_def registered_def marked_online_def Let_def case_prod_beta)

subsection \<open>Pending notifications\<close>

text \<open>
  Claim C2, as amended. Let user \<open>U\<close> have no entry in \<open>connectedUsers\<close>, and let any sequence
  of calls of \<open>sendNotificationToUser\<close> be made, to \<open>U\<close> and to others. None of them reaches
  the personal room of \<open>U\<close>. If \<open>U\<close> then authenticates on a socket and the write of the
  online status is not rejected, the handler emits to the personal room of \<open>U\<close> what was
  pending before followed by the notifications of the calls made for \<open>U\<close>, in the order of
  the calls, each once, then the acknowledgement \<open>authenticated\<close>, and after that nothing
  but \<open>user_online\<close> notifications about \<open>U\<close>; the queue of \<open>U\<close> is empty afterwards, and
  the authenticating socket is in the personal room.
\<close>

theorem queued_notifications_flushed_on_authenticate:
  assumes offline: "map_get (connectedUsers s) U = None"
      and ok: "userUpdateOk e"
  shows "(\<forall>ev. ToRoom (UserRoom U) ev \<notin> set (snd (sendAll calls s)))
       \<and> (\<exists>rest. snd (on_authenticate e sid U uname (fst (sendAll calls s)))
                    = map (\<lambda>n. ToRoom (UserRoom U) (Notification n))
                        (queue_of s U @ map snd (filter (\<lambda>c. fst c = U) calls))
                      @ ToSocket sid Authenticated # rest
                  \<and> (\<forall>x \<in> set rest. \<exists>k. x = ToRoom (UserRoom k)
                          (Notification (user_online_notification e U uname))))
       \<and> queue_of (fst (on_authenticate e sid U uname (fst (sendAll calls s)))) U = []
       \<and> sid \<in> set (recipients (fst (on_authenticate e sid U uname (fst (sendAll calls s))))
                         (ToRoom (UserRoom U) ev'))"
proof -
  let ?ns = "queue_of s U @ map snd (filter (\<lambda>c. fst c = U) calls)"
  let ?s1 = "fst (sendAll calls s)"
  let ?r = "on_authenticate e sid U uname ?s1"
  let ?s2 = "marked_online e U (registered e sid U uname ?s1)"
  let ?s3 = "fst (sendPendingNotifications U ?s2)"
  let ?rest = "snd (notifyFollowersUserOnline e U uname ?s3)"
  have q1: "queue_of ?s1 U = ?ns"
    by (rule sendAll_queue[OF offline])
  have q2: "queue_of ?s2 U = ?ns"
    using q1 by (simp add: queue_of_def marked_online_def registered_def)
  have r: "?r = (fst (notifyFollowersUserOnline e U uname ?s3),
                snd (sendPendingNotifications U ?s2) @ [ToSocket sid Authenticated] @ ?rest)"
    by (rule on_authenticate_ok[OF ok])
  have conn: "map_get (connectedUsers ?s3) U \<noteq> None"
    by (simp add: pending_connected marked_online_def registered_def map_get_def map_of_map_set)
  have a: "\<forall>ev. ToRoom (UserRoom U) ev \<notin> set (snd (sendAll calls s))"
    using sendAll_effects_offline[OF offline] by blast
  have c: "snd ?r = map (\<lambda>n. ToRoom (UserRoom U) (Notification n)) ?ns
                    @ ToSocket sid Authenticated # ?rest"
    by (simp add: r pending_effects q2)
  have d: "\<forall>x \<in> set ?rest. \<exists>k. x = ToRoom (UserRoom k)
                          (Notification (user_online_notification e U uname))"
    using online_effects by blast
  have e: "queue_of (fst ?r) U = []"
    using online_queue_online[OF conn, of e U uname] pending_queue[of U ?s2]
    by (simp add: r queue_of_def)
  have f: "sid \<in> set (recipients (fst ?r) (ToRoom (UserRoom U) ev'))"
    by (auto simp: r recipients_def online_ioRooms pending_ioRooms marked_online_def
          registered_def set_add_def image_iff)
  from c d have "\<exists>rest. snd ?r = map (\<lambda>n. ToRoom (UserRoom U) (Notification n)) ?ns
                      @ ToSocket sid Authenticated # rest
                  \<and> (\<forall>x \<in> set rest. \<exists>k. x = ToRoom (UserRoom k)
                          (Notification (user_online_notification e U uname)))"
    by blast
  with a e f show ?thesis by blast
qed

text \<open>The theorem of C2 at a run with two notifications for \<open>''f''\<close> and one for another user.\<close>

theorem queued_notifications_flushed_witness:
  "map_get (connectedUsers init) ''f'' = None \<and> userUpdateOk (ok_env 5)
   \<and> snd (on_authenticate (ok_env 5) 1 ''f'' ''Fay''
            (fst (sendAll [(''f'', notice 1), (''x'', notice 2), (''f'', notice 3)] init)))
       = [ToRoom (UserRoom ''f'') (Notification (notice 1)),
          ToRoom (UserRoom ''f'') (Notification (notice 3)),
          ToSocket 1 Authenticated]
   \<and> queue_of (fst (on_authenticate (ok_env 5) 1 ''f'' ''Fay''
            (fst (sendAll [(''f'', notice 1), (''x'', notice 2), (''f'', notice 3)] init)))) ''f'' = []"
proof -
  have h1: "map_get (connectedUsers init) ''f'' = None"
    by (simp add: init_def map_get_def)
  have h2: "userUpdateOk (ok_env 5)"
    by (simp add: ok_env_def)
  have q: "queue_of init ''f'' = []"
    by (simp add: queue_of_def init_def map_get_def)
  from queued_notifications_flushed_on_authenticate[OF h1 h2,
      of "[(''f'', notice 1), (''x'', notice 2), (''f'', notice 3)]" 1 "''Fay''" Authenticated]
  show ?thesis using h1 h2
    by (simp add: q on_authenticate_def sendPendingNotifications_def sendNotificationToUser_def
          notifyFollowersUserOnline_def init_def map_get_def doc_update_def Let_def map_delete_def)
qed

text \<open>
  Claim C2 as stated fails when the write of the online status is rejected: the handler
  answers \<open>authentication_error\<close>, delivers nothing and keeps the queue.
\<close>

theorem flush_skipped_counterexample:
  "snd (on_authenticate (write_fail_env 5) 1 ''f'' ''Fay''
          (fst (sendAll [(''f'', notice 1)] init))) = [ToSocket 1 AuthenticationError]
   \<and> queue_of (fst (on_authenticate (write_fail_env 5) 1 ''f'' ''Fay''
          (fst (sendAll [(''f'', notice 1)] init)))) ''f'' = [notice 1]"
  by (simp add: on_authenticate_def write_fail_env_def sendNotificationToUser_def init_def
        map_get_def queue_of_def Let_def)


lemma calls_for_one: "map snd (filter (\<lambda>c. fst c = U) (map (Pair U) ns)) = ns"
  by (induction ns) simp_all

text \<open>
  Claim C3, as amended. The queue of pending notifications has no capacity: every
  notification sent to a user without an entry in \<open>connectedUsers\<close> is appended to the
  user's queue and none is dropped, so the queue grows by one with every call.
\<close>

theorem queue_is_unbounded:
  assumes "map_get (connectedUsers s) U = None"
  shows "queue_of (fst (sendAll (map (Pair U) ns) s)) U = queue_of s U @ ns
       \<and> length (queue_of (fst (sendAll (map (Pair U) ns) s)) U) = length (queue_of s U) + length ns"
proof -
  from sendAll_queue[OF assms, of "map (Pair U) ns", unfolded calls_for_one] show ?thesis
    by simp
qed

text \<open>The theorem of C3 at three notifications for a user who never connected.\<close>

theorem queue_is_unbounded_witness:
  "map_get (connectedUsers init) ''f'' = None
   \<and> queue_of (fst (sendAll (map (Pair ''f'') [notice 1, notice 2, notice 3]) init)) ''f''
       = queue_of init ''f'' @ [notice 1, notice 2, notice 3]
   \<and> length (queue_of (fst (sendAll (map (Pair ''f'') [notice 1, notice 2, notice 3]) init)) ''f'')
       = length (queue_of init ''f'') + length [notice 1, notice 2, notice 3]"
proof -
  have h: "map_get (connectedUsers init) ''f'' = None"
    by (simp add: init_def map_get_def)
  from queue_is_unbounded[OF h, of "[notice 1, notice 2, notice 3]"] h show ?thesis by simp
qed

text \<open>
  Claim C3 as stated fails: after 201 notifications the queue holds all 201, the eldest
  first, and no number bounds the length of the queue.
\<close>

theorem no_capacity_counterexample:
  "queue_of (fst (sendAll (map (Pair ''f'') (map notice [0..<201])) init)) ''f''
     = map notice [0..<201]
   \<and> length (map notice [0..<201]) = 201
   \<and> \<not> (\<exists>cap. \<forall>ns. length (queue_of (fst (sendAll (map (Pair ''f'') ns) init)) ''f'') \<le> cap)"
proof -
  have off: "map_get (connectedUsers init) ''f'' = None"
    by (simp add: init_def map_get_def)
  have q: "queue_of init ''f'' = []"
    by (simp add: queue_of_def init_def map_get_def)
  have grow: "queue_of (fst (sendAll (map (Pair ''f'') ns) init)) ''f'' = ns" for ns
    using sendAll_queue[OF off, of "map (Pair ''f'') ns", unfolded calls_for_one]
    by (simp add: q)
  have "\<not> (\<exists>cap. \<forall>ns. length (queue_of (fst (sendAll (map (Pair ''f'') ns) init)) ''f'')
                          \<le> cap)"
  proof
    assume "\<exists>cap. \<forall>ns. length (queue_of (fst (sendAll (map (Pair ''f'') ns) init)) ''f'') \<le> cap"
    then obtain cap where
      "\<forall>ns. length (queue_of (fst (sendAll (map (Pair ''f'') ns) init)) ''f'') \<le> cap"
      by blast
    then have "length (replicate (Suc cap) (notice 0)) \<le> cap"
      unfolding grow by blast
    then show False by simp
  qed
  moreover have "length (map notice [0..<201]) = 201"
    by simp
  ultimately show ?thesis
    using grow[of "map notice [0..<201]"] by blast
qed


subsection \<open>What the notification methods leave alone\<close>

lemma send_frame: "\<exists>q. fst (sendNotificationToUser k n s) = s\<lparr>notificationQueue := q\<rparr>"
proof (cases "map_get (connectedUsers s) k")
  case None
  then show ?thesis by (simp add: sendNotificationToUser_def Let_def) blast
next
  case (Some a)
  then have "fst (sendNotificationToUser k n s) = s\<lparr>notificationQueue := notificationQueue s\<rparr>"
    by (simp add: sendNotificationToUser_def)
  then show ?thesis by blast
qed

lemma sendToEach_frame: "\<exists>q. fst (sendToEach ks n s) = s\<lparr>notificationQueue := q\<rparr>"
proof (induction ks arbitrary: s)
  case Nil
  have "fst (sendToEach [] n s) = s\<lparr>notificationQueue := notificationQueue s\<rparr>" by simp
  then show ?case by blast
next
  case (Cons k ks)
  obtain q where q: "fst (sendNotificationToUser k n s) = s\<lparr>notificationQueue := q\<rparr>"
    using send_frame by blast
  obtain q' where "fst (sendToEach ks n (s\<lparr>notificationQueue := q\<rparr>))
                     = s\<lparr>notificationQueue := q\<rparr>\<lparr>notificationQueue := q'\<rparr>"
    using Cons.IH by blast
  then have "fst (sendToEach (k # ks) n s) = s\<lparr>notificationQueue := q'\<rparr>"
    by (simp add: case_prod_beta q)
  then show ?case by blast
qed

lemma pending_frame: "\<exists>q. fst (sendPendingNotifications uid s) = s\<lparr>notificationQueue := q\<rparr>"
proof -
  have "fst (sendPendingNotifications uid s) = s\<lparr>notificationQueue := notificationQueue s\<rparr>
      \<or> fst (sendPendingNotifications uid s)
           = s\<lparr>notificationQueue := map_delete uid (notificationQueue s)\<rparr>"
    by (simp add: sendPendingNotifications_def split: option.splits)
  then show ?thesis by blast
qed

lemma online_frame:
  "\<exists>q. fst (notifyFollowersUserOnline e uid uname s) = s\<lparr>notificationQueue := q\<rparr>"
proof -
  have same: "\<exists>q. s = s\<lparr>notificationQueue := q\<rparr>"
    by (rule exI[of _ "notificationQueue s"]) simp
  show ?thesis
    using same sendToEach_frame
    by (simp add: notifyFollowersUserOnline_def Let_def split: option.splits)
qed



lemma on_authenticate_frame:
  "\<exists>q d. fst (on_authenticate e sid uid uname s)
           = (registered e sid uid uname s)\<lparr>notificationQueue := q, users := d\<rparr>"
proof (cases "userUpdateOk e")
  case False
  have "registered e sid uid uname s = (registered e sid uid uname s)
          \<lparr>notificationQueue := notificationQueue (registered e sid uid uname s),
           users := users (registered e sid uid uname s)\<rparr>"
    by simp
  then show ?thesis using False by (metis on_authenticate_fail fst_conv)
next
  case True
  let ?s2 = "marked_online e uid (registered e sid uid uname s)"
  obtain q where q: "fst (sendPendingNotifications uid ?s2) = ?s2\<lparr>notificationQueue := q\<rparr>"
    using pending_frame by blast
  obtain q' where q': "fst (notifyFollowersUserOnline e uid uname (?s2\<lparr>notificationQueue := q\<rparr>))
                     = ?s2\<lparr>notificationQueue := q\<rparr>\<lparr>notificationQueue := q'\<rparr>"
    using online_frame by blast
  have "fst (on_authenticate e sid uid uname s)
          = fst (notifyFollowersUserOnline e uid uname (fst (sendPendingNotifications uid ?s2)))"
    by (simp add: on_authenticate_ok[OF True])
  also have "\<dots> = ?s2\<lparr>notificationQueue := q\<rparr>\<lparr>notificationQueue := q'\<rparr>"
    unfolding q by (rule q')
  also have "\<dots> = (registered e sid uid uname s)\<lparr>notificationQueue := q',
           users := doc_update uid (\<lambda>d. d\<lparr>isOnline := True, lastSeen := now e\<rparr>)
                      (users (registered e sid uid uname s))\<rparr>"
    by (simp add: marked_online_def)
  finally show ?thesis by blast
qed

subsection \<open>The concrete states\<close>

lemmas eval_defs = on_authenticate_def on_join_stream_def on_leave_stream_def
  on_chat_message_def on_disconnect_def on_timer_def offline_timeout_def
  sendPendingNotifications_def sendNotificationToUser_def notifyFollowersUserOnline_def
  notifyFollowersUserOffline_def notifyStreamerMention_def updateStreamViewerCount_def
  user_online_notification_def user_offline_notification_def
  doc_update_def map_get_def map_has_def map_keys_def map_delete_def set_add_def
  set_delete_def init_def db_state_def ok_env_def write_fail_env_def plain_user_def
  queue_of_def members_of_def Let_def

lemma once_authenticated_eq:
  "once_authenticated = init\<lparr>userSockets := [(1, \<lparr>userId = ''x'', username = ''Xia'', socketId = 1,
                                                   connectedAt = 1\<rparr>)],
                             connectedUsers := [(''x'', 1)],
                             ioRooms := [(1, UserRoom ''x'')]\<rparr>"
  by (simp add: once_authenticated_def eval_defs)

lemma chat_state_eq:
  "chat_state = db_state\<lparr>
      userSockets := [(1, \<lparr>userId = ''x'', username = ''Xia'', socketId = 1, connectedAt = 0\<rparr>),
                      (2, \<lparr>userId = ''b'', username = ''Bo'', socketId = 2, connectedAt = 0\<rparr>)],
      connectedUsers := [(''x'', 1), (''b'', 2)],
      ioRooms := [(1, UserRoom ''x''), (2, UserRoom ''b'')],
      users := [(''s'', plain_user\<lparr>isStreamer := True, followers := [''f'']\<rparr>),
                (''f'', plain_user), (''x'', plain_user\<lparr>isOnline := True\<rparr>),
                (''b'', plain_user\<lparr>isChatBanned := True, isOnline := True\<rparr>)]\<rparr>"
  by (simp add: chat_state_def eval_defs)

lemma room_state_eq:
  "room_state = chat_state\<lparr>streamRooms := [(''live'', [1])],
                            ioRooms := [(1, UserRoom ''x''), (2, UserRoom ''b''),
                                        (1, StreamRoom ''live'')]\<rparr>"
  by (simp add: room_state_def chat_state_def eval_defs)

subsection \<open>Authenticating twice\<close>

text \<open>
  Claim C7, as amended. An authenticate event on a socket that already carries a user is
  handled like the first one: the user info of the socket is overwritten with the new user
  id and name, the socket becomes the entry of the new user in \<open>connectedUsers\<close>, the
  entries of all other users (the previous user's among them) and of all other sockets stay
  as they were, and the socket is answered \<open>authenticated\<close>, or
  \<open>authentication_error\<close> alone when the write of the online status is rejected.
\<close>

theorem reauthenticate_overwrites:
  assumes "map_get (userSockets s) sid = Some old"
  shows "map_get (userSockets (fst (on_authenticate e sid uid uname s))) sid
           = Some \<lparr>userId = uid, username = uname, socketId = sid, connectedAt = now e\<rparr>
       \<and> map_get (connectedUsers (fst (on_authenticate e sid uid uname s))) uid = Some sid
       \<and> (\<forall>u. u \<noteq> uid \<longrightarrow>
             map_get (connectedUsers (fst (on_authenticate e sid uid uname s))) u
               = map_get (connectedUsers s) u)
       \<and> (\<forall>k. k \<noteq> sid \<longrightarrow>
             map_get (userSockets (fst (on_authenticate e sid uid uname s))) k
               = map_get (userSockets s) k)
       \<and> (if userUpdateOk e
          then ToSocket sid Authenticated \<in> set (snd (on_authenticate e sid uid uname s))
          else snd (on_authenticate e sid uid uname s) = [ToSocket sid AuthenticationError])"
proof -
  obtain q d where fr: "fst (on_authenticate e sid uid uname s)
           = (registered e sid uid uname s)\<lparr>notificationQueue := q, users := d\<rparr>"
    using on_authenticate_frame by blast
  have eff: "if userUpdateOk e
          then ToSocket sid Authenticated \<in> set (snd (on_authenticate e sid uid uname s))
          else snd (on_authenticate e sid uid uname s) = [ToSocket sid AuthenticationError]"
    by (simp add: on_authenticate_ok on_authenticate_fail)
  show ?thesis
    using eff by (simp add: fr registered_def map_get_def map_of_map_set)
qed

text \<open>The theorem of C7 at socket 1, authenticated as \<open>''x''\<close> and then as \<open>''f''\<close>.\<close>

theorem reauthenticate_overwrites_witness:
  "map_get (userSockets once_authenticated) 1
     = Some \<lparr>userId = ''x'', username = ''Xia'', socketId = 1, connectedAt = 1\<rparr>
   \<and> map_get (userSockets (fst (on_authenticate (ok_env 2) 1 ''f'' ''Fay'' once_authenticated))) 1
     = Some \<lparr>userId = ''f'', username = ''Fay'', socketId = 1, connectedAt = now (ok_env 2)\<rparr>
   \<and> map_get (connectedUsers (fst (on_authenticate (ok_env 2) 1 ''f'' ''Fay'' once_authenticated)))
         ''f'' = Some 1
   \<and> map_get (connectedUsers (fst (on_authenticate (ok_env 2) 1 ''f'' ''Fay'' once_authenticated)))
         ''x'' = Some 1
   \<and> ToSocket 1 Authenticated
         \<in> set (snd (on_authenticate (ok_env 2) 1 ''f'' ''Fay'' once_authenticated))"
proof -
  have h: "map_get (userSockets once_authenticated) 1
     = Some \<lparr>userId = ''x'', username = ''Xia'', socketId = 1, connectedAt = 1\<rparr>"
    by (simp add: once_authenticated_eq map_get_def)
  have ok: "userUpdateOk (ok_env 2)" by (simp add: ok_env_def)
  have x: "map_get (connectedUsers once_authenticated) ''x'' = Some 1"
    by (simp add: once_authenticated_eq map_get_def)
  have ne: "''x'' \<noteq> ''f''" by simp
  from reauthenticate_overwrites[OF h, of "ok_env 2" "''f''" "''Fay''"] h ok x ne
  show ?thesis by simp
qed

text \<open>
  Claim C7 as stated fails: the second authenticate on socket 1 is acknowledged and the
  socket now belongs to the other user.
\<close>

theorem already_authenticated_counterexample:
  "map_option userId (map_get (userSockets once_authenticated) 1) = Some ''x''
   \<and> snd (on_authenticate (ok_env 2) 1 ''f'' ''Fay'' once_authenticated)
       = [ToSocket 1 Authenticated]
   \<and> map_option userId
         (map_get (userSockets (fst (on_authenticate (ok_env 2) 1 ''f'' ''Fay''
                                       once_authenticated))) 1) = Some ''f''"
  by (simp add: once_authenticated_eq eval_defs)


subsection \<open>Chat messages\<close>


lemma chat_state_sockets:
  "map_get (userSockets chat_state) 1
     = Some \<lparr>userId = ''x'', username = ''Xia'', socketId = 1, connectedAt = 0\<rparr>"
  "map_get (userSockets chat_state) 2
     = Some \<lparr>userId = ''b'', username = ''Bo'', socketId = 2, connectedAt = 0\<rparr>"
  by (simp_all add: chat_state_eq map_get_def)









subsection \<open>Leaving a stream\<close>

lemma map_set_same: "map_of m k = Some v \<Longrightarrow> map_set k v m = m"
  by (induction m) (auto split: if_splits)

lemma room_state_facts:
  "map_get (userSockets room_state) 2
     = Some \<lparr>userId = ''b'', username = ''Bo'', socketId = 2, connectedAt = 0\<rparr>"
  "map_get (streamRooms room_state) ''live'' = Some [1]"
  "map_get (streamRooms room_state) ''other'' = None"
  by (simp_all add: room_state_eq chat_state_eq map_get_def)

text \<open>
  Claim C10, as amended. A leave-stream event from an authenticated socket that is not
  among the tracked sockets of an existing room emits \<open>viewer-left\<close> to the room with the
  name of the leaver and the unchanged count, preceded by \<open>viewer-count-update\<close> with the
  same count when the write of the count is not rejected; the tracked rooms are unchanged.
  If the stream has no tracked room, nothing is emitted and the rooms are unchanged.
\<close>

theorem leave_by_non_member:
  assumes auth: "map_get (userSockets s) sid = Some ui"
  shows "(\<forall>ms. map_get (streamRooms s) stid = Some ms \<and> sid \<notin> set ms \<longrightarrow>
            snd (on_leave_stream e sid stid s)
              = (if streamUpdateOk e stid
                 then [ToRoom (StreamRoom stid) (ViewerCountUpdate stid (length ms))] else [])
                @ [ToRoomExcept (StreamRoom stid) sid (ViewerLeft (username ui) (length ms))]
            \<and> streamRooms (fst (on_leave_stream e sid stid s)) = streamRooms s)
       \<and> (map_get (streamRooms s) stid = None \<longrightarrow>
            snd (on_leave_stream e sid stid s) = []
            \<and> streamRooms (fst (on_leave_stream e sid stid s)) = streamRooms s)"
  using auth
  by (auto simp: on_leave_stream_def updateStreamViewerCount_def set_delete_def Let_def
        map_get_def map_set_same)

text \<open>The theorem of C10 at socket 2, which never joined \<open>''live''\<close>, and at a stream without room.\<close>

theorem leave_by_non_member_witness:
  "map_get (userSockets room_state) 2
     = Some \<lparr>userId = ''b'', username = ''Bo'', socketId = 2, connectedAt = 0\<rparr>
   \<and> map_get (streamRooms room_state) ''live'' = Some [1] \<and> 2 \<notin> set [1::nat]
   \<and> snd (on_leave_stream (ok_env 5) 2 ''live'' room_state)
       = [ToRoom (StreamRoom ''live'') (ViewerCountUpdate ''live'' 1),
          ToRoomExcept (StreamRoom ''live'') 2 (ViewerLeft ''Bo'' 1)]
   \<and> streamRooms (fst (on_leave_stream (ok_env 5) 2 ''live'' room_state)) = streamRooms room_state
   \<and> map_get (streamRooms room_state) ''other'' = None
   \<and> snd (on_leave_stream (ok_env 5) 2 ''other'' room_state) = []"
proof -
  have ok: "streamUpdateOk (ok_env 5) ''live''" by (simp add: ok_env_def)
  from leave_by_non_member[OF room_state_facts(1), of "''live''" "ok_env 5"]
       leave_by_non_member[OF room_state_facts(1), of "''other''" "ok_env 5"]
  show ?thesis using ok room_state_facts by simp
qed

text \<open>
  Claim C10 as stated fails when the write of the count is rejected: \<open>viewer-left\<close> is
  emitted, \<open>viewer-count-update\<close> is not.
\<close>

theorem leave_by_non_member_counterexample:
  "map_option userId (map_get (userSockets room_state) 2) = Some ''b''
   \<and> map_get (streamRooms room_state) ''live'' = Some [1]
   \<and> snd (on_leave_stream (write_fail_env 5) 2 ''live'' room_state)
       = [ToRoomExcept (StreamRoom ''live'') 2 (ViewerLeft ''Bo'' 1)]"
  by (simp add: room_state_facts on_leave_stream_def updateStreamViewerCount_def
        write_fail_env_def set_delete_def Let_def)


subsection \<open>The viewer count and its write\<close>

lemma room_events_append: "room_events stid (a @ b) = room_events stid a @ room_events stid b"
  by (simp add: room_events_def List.map_filter_def)

lemma room_events_Nil: "room_events stid [] = []"
  by (simp add: room_events_def List.map_filter_def)

lemma room_events_Cons:
  "room_events stid (x # xs)
     = (case to_room stid x of None \<Rightarrow> room_events stid xs | Some ev \<Rightarrow> ev # room_events stid xs)"
  by (simp add: room_events_def List.map_filter_def split: option.splits)

lemma update_count_effects:
  "snd (updateStreamViewerCount e k vc db)
     = (if streamUpdateOk e k then [ToRoom (StreamRoom k) (ViewerCountUpdate k vc)] else [])"
  by (simp add: updateStreamViewerCount_def)


lemma leave_all_map_of:
  "map_of (fst (leave_all_rooms e sid un rooms db)) stid
     = map_option (set_delete sid) (map_of rooms stid)"
  by (induction rooms arbitrary: db) (auto simp: case_prod_beta Let_def set_delete_def)


lemma leave_all_events:
  "distinct (map fst rooms) \<Longrightarrow>
   room_events stid (snd (snd (leave_all_rooms e sid un rooms db)))
     = (case map_of rooms stid of
          None \<Rightarrow> []
        | Some ms \<Rightarrow>
            if sid \<in> set ms
            then (if streamUpdateOk e stid
                  then [ViewerCountUpdate stid (length (set_delete sid ms))] else [])
                 @ [ViewerLeft un (length (set_delete sid ms))]
            else [])"
proof (induction rooms arbitrary: db)
  case Nil
  then show ?case by (simp add: room_events_Nil)
next
  case (Cons p rooms)
  obtain k ms where p: "p = (k, ms)" by (cases p)
  have d: "distinct (map fst rooms)" and notin: "k \<notin> fst ` set rooms"
    using Cons.prems by (simp_all add: p)
  have rest_none: "map_of rooms k = None"
    using notin by (simp add: map_of_eq_None_iff)
  note IH = Cons.IH[OF d]
  show ?case
  proof (cases "k = stid")
    case True
    then show ?thesis
      using rest_none
      by (simp add: p case_prod_beta Let_def IH room_events_append room_events_Cons
            room_events_Nil update_count_effects)
  next
    case False
    then show ?thesis
      by (simp add: p case_prod_beta Let_def IH room_events_append room_events_Cons
            room_events_Nil update_count_effects)
  qed
qed


lemma on_disconnect_auth:
  assumes "map_get (userSockets s) sid = Some ui"
  shows "on_disconnect e sid s
     = (s\<lparr>ioRooms := filter (\<lambda>p. fst p \<noteq> sid) (ioRooms s),
          connectedUsers := map_delete (userId ui) (connectedUsers s),
          userSockets := map_delete sid (userSockets s),
          streamRooms := fst (leave_all_rooms e sid (username ui) (streamRooms s) (streams s)),
          streams := fst (snd (leave_all_rooms e sid (username ui) (streamRooms s) (streams s))),
          timers := timers s @ [(now e + 30000, userId ui, username ui)]\<rparr>,
        snd (snd (leave_all_rooms e sid (username ui) (streamRooms s) (streams s))))"
  using assms by (simp add: on_disconnect_def case_prod_beta)

lemma room_state_wf: "distinct (map fst (streamRooms room_state))"
  by (simp add: room_state_eq)

lemma room_state_socket1:
  "map_get (userSockets room_state) 1
     = Some \<lparr>userId = ''x'', username = ''Xia'', socketId = 1, connectedAt = 0\<rparr>"
  by (simp add: room_state_eq chat_state_eq map_get_def)

text \<open>
  Claim C4, as amended. For a join, a leave or a disconnect of an authenticated socket,
  \<open>viewer-count-update\<close> is emitted to the room exactly when the write of the count is not
  rejected, and then before the other events. A rejected write changes nothing else: the
  tracked members are updated all the same, and \<open>viewer-joined\<close> or \<open>viewer-left\<close> is
  emitted with the new count.
\<close>

theorem count_update_follows_write:
  assumes auth: "map_get (userSockets s) sid = Some ui"
      and keys: "distinct (map fst (streamRooms s))"
  shows "snd (on_join_stream e sid stid s)
           = (if streamUpdateOk e stid
              then [ToRoom (StreamRoom stid)
                      (ViewerCountUpdate stid (length (set_add sid (members_of s stid))))]
              else [])
             @ [ToRoomExcept (StreamRoom stid) sid
                  (ViewerJoined (username ui) (length (set_add sid (members_of s stid)))),
                ToSocket sid (StreamJoined stid (length (set_add sid (members_of s stid))))]
       \<and> members_of (fst (on_join_stream e sid stid s)) stid = set_add sid (members_of s stid)
       \<and> (map_get (streamRooms s) stid \<noteq> None \<longrightarrow>
            snd (on_leave_stream e sid stid s)
              = (if streamUpdateOk e stid
                 then [ToRoom (StreamRoom stid)
                         (ViewerCountUpdate stid (length (set_delete sid (members_of s stid))))]
                 else [])
                @ [ToRoomExcept (StreamRoom stid) sid
                     (ViewerLeft (username ui) (length (set_delete sid (members_of s stid))))]
            \<and> members_of (fst (on_leave_stream e sid stid s)) stid
                = set_delete sid (members_of s stid))
       \<and> (sid \<in> set (members_of s stid) \<longrightarrow>
            room_events stid (snd (on_disconnect e sid s))
              = (if streamUpdateOk e stid
                 then [ViewerCountUpdate stid (length (set_delete sid (members_of s stid)))]
                 else [])
                @ [ViewerLeft (username ui) (length (set_delete sid (members_of s stid)))]
            \<and> members_of (fst (on_disconnect e sid s)) stid
                = set_delete sid (members_of s stid))"
proof -
  have j: "snd (on_join_stream e sid stid s)
           = (if streamUpdateOk e stid
              then [ToRoom (StreamRoom stid)
                      (ViewerCountUpdate stid (length (set_add sid (members_of s stid))))]
              else [])
             @ [ToRoomExcept (StreamRoom stid) sid
                  (ViewerJoined (username ui) (length (set_add sid (members_of s stid)))),
                ToSocket sid (StreamJoined stid (length (set_add sid (members_of s stid))))]"
    using auth
    by (simp add: on_join_stream_def members_of_def update_count_effects case_prod_beta Let_def)
  have jm: "members_of (fst (on_join_stream e sid stid s)) stid = set_add sid (members_of s stid)"
    using auth
    by (simp add: on_join_stream_def members_of_def case_prod_beta Let_def map_get_def
          map_of_map_set)
  have l: "snd (on_leave_stream e sid stid s)
              = (if streamUpdateOk e stid
                 then [ToRoom (StreamRoom stid)
                         (ViewerCountUpdate stid (length (set_delete sid (members_of s stid))))]
                 else [])
                @ [ToRoomExcept (StreamRoom stid) sid
                     (ViewerLeft (username ui) (length (set_delete sid (members_of s stid))))]
            \<and> members_of (fst (on_leave_stream e sid stid s)) stid
                = set_delete sid (members_of s stid)"
    if "map_get (streamRooms s) stid \<noteq> None"
    using auth that
    by (auto simp: on_leave_stream_def members_of_def update_count_effects case_prod_beta
          Let_def map_get_def map_of_map_set)
  have d: "room_events stid (snd (on_disconnect e sid s))
              = (if streamUpdateOk e stid
                 then [ViewerCountUpdate stid (length (set_delete sid (members_of s stid)))]
                 else [])
                @ [ViewerLeft (username ui) (length (set_delete sid (members_of s stid)))]
            \<and> members_of (fst (on_disconnect e sid s)) stid
                = set_delete sid (members_of s stid)"
    if "sid \<in> set (members_of s stid)"
  proof -
    from that obtain ms where ms: "map_of (streamRooms s) stid = Some ms" and "sid \<in> set ms"
      by (cases "map_of (streamRooms s) stid") (auto simp: members_of_def map_get_def)
    then show ?thesis
      by (simp add: on_disconnect_auth[OF auth] leave_all_events[OF keys] leave_all_map_of
            members_of_def map_get_def)
  qed
  from j jm l d show ?thesis by blast
qed

text \<open>
  The theorem of C4 at socket 1, a member of \<open>''live''\<close>: joining another stream and leaving
  with rejected writes, and disconnecting with and without one.
\<close>

theorem count_update_follows_write_witness:
  "map_get (userSockets room_state) 1
     = Some \<lparr>userId = ''x'', username = ''Xia'', socketId = 1, connectedAt = 0\<rparr>
   \<and> distinct (map fst (streamRooms room_state))
   \<and> map_get (streamRooms room_state) ''live'' \<noteq> None
   \<and> 1 \<in> set (members_of room_state ''live'')
   \<and> snd (on_join_stream (write_fail_env 7) 1 ''game'' room_state)
       = [ToRoomExcept (StreamRoom ''game'') 1 (ViewerJoined ''Xia'' 1),
          ToSocket 1 (StreamJoined ''game'' 1)]
   \<and> members_of (fst (on_join_stream (write_fail_env 7) 1 ''game'' room_state)) ''game'' = [1]
   \<and> snd (on_leave_stream (write_fail_env 7) 1 ''live'' room_state)
       = [ToRoomExcept (StreamRoom ''live'') 1 (ViewerLeft ''Xia'' 0)]
   \<and> members_of (fst (on_leave_stream (write_fail_env 7) 1 ''live'' room_state)) ''live'' = []
   \<and> room_events ''live'' (snd (on_disconnect (ok_env 7) 1 room_state))
       = [ViewerCountUpdate ''live'' 0, ViewerLeft ''Xia'' 0]
   \<and> room_events ''live'' (snd (on_disconnect (write_fail_env 7) 1 room_state))
       = [ViewerLeft ''Xia'' 0]"
proof -
  have live: "members_of room_state ''live'' = [1]" and game: "members_of room_state ''game'' = []"
    by (simp_all add: members_of_def room_state_eq map_get_def)
  have ex: "map_get (streamRooms room_state) ''live'' \<noteq> None"
    by (simp add: room_state_facts)
  have envs: "\<not> streamUpdateOk (write_fail_env 7) ''game''"
             "\<not> streamUpdateOk (write_fail_env 7) ''live''"
             "streamUpdateOk (ok_env 7) ''live''"
    by (simp_all add: write_fail_env_def ok_env_def)
  from count_update_follows_write[OF room_state_socket1 room_state_wf, of "write_fail_env 7" "''game''"]
       count_update_follows_write[OF room_state_socket1 room_state_wf, of "write_fail_env 7" "''live''"]
       count_update_follows_write[OF room_state_socket1 room_state_wf, of "ok_env 7" "''live''"]
  show ?thesis
    using room_state_socket1 room_state_wf ex
    by (simp add: live game envs set_add_def set_delete_def)
qed

text \<open>
  Claim C4 as stated fails: socket 2 joins \<open>''live''\<close> while the write is rejected; the room
  grows from one member to two and no \<open>viewer-count-update\<close> is emitted.
\<close>

theorem count_update_skipped_counterexample:
  "members_of room_state ''live'' = [1]
   \<and> map_option userId (map_get (userSockets room_state) 2) = Some ''b''
   \<and> snd (on_join_stream (write_fail_env 7) 2 ''live'' room_state)
       = [ToRoomExcept (StreamRoom ''live'') 2 (ViewerJoined ''Bo'' 2),
          ToSocket 2 (StreamJoined ''live'' 2)]
   \<and> members_of (fst (on_join_stream (write_fail_env 7) 2 ''live'' room_state)) ''live'' = [1, 2]"
  by (simp add: room_state_eq chat_state_eq eval_defs)


subsection \<open>Going offline\<close>









lemma reconnect_state_eq:
  "reconnect_state = db_state\<lparr>
      userSockets := [(9, \<lparr>userId = ''x'', username = ''Xia'', socketId = 9, connectedAt = 0\<rparr>),
                      (3, \<lparr>userId = ''s'', username = ''Sam'', socketId = 3, connectedAt = 3000\<rparr>)],
      connectedUsers := [(''x'', 9)],
      ioRooms := [(9, UserRoom ''x''), (3, UserRoom ''s'')],
      notificationQueue := [(''f'', [user_online_notification (ok_env 0) ''s'' ''Sam'',
                                     user_online_notification (ok_env 2000) ''s'' ''Sam'',
                                     user_online_notification (ok_env 3000) ''s'' ''Sam''])],
      timers := [(31000, ''s'', ''Sam''), (34000, ''s'', ''Sam'')],
      users := [(''s'', plain_user\<lparr>isStreamer := True, followers := [''f''], isOnline := True,
                                     lastSeen := 3000\<rparr>),
                (''f'', plain_user), (''x'', plain_user\<lparr>isOnline := True\<rparr>),
                (''b'', plain_user\<lparr>isChatBanned := True\<rparr>)]\<rparr>"
  by (simp add: reconnect_state_def eval_defs)

lemma on_authenticate_timers: "timers (fst (on_authenticate e sid uid uname s)) = timers s"
proof -
  obtain q d where "fst (on_authenticate e sid uid uname s)
           = (registered e sid uid uname s)\<lparr>notificationQueue := q, users := d\<rparr>"
    using on_authenticate_frame by blast
  then show ?thesis by (simp add: registered_def)
qed

lemma on_authenticate_has: "map_has (connectedUsers (fst (on_authenticate e sid uid uname s))) uid"
proof -
  obtain q d where "fst (on_authenticate e sid uid uname s)
           = (registered e sid uid uname s)\<lparr>notificationQueue := q, users := d\<rparr>"
    using on_authenticate_frame by blast
  then show ?thesis by (simp add: registered_def map_has_def map_of_map_set)
qed

text \<open>
  Claim C5, as amended. The disconnect of an authenticated socket schedules one callback,
  due 30000 ms later, for the user of the socket. Before it is due nothing happens. When it
  runs, the offline transition fires only if \<open>connectedUsers\<close> has no entry for the user at
  that moment: with an entry the callback changes nothing and emits nothing. So if the
  user authenticates again after the disconnect and the callback runs next, no offline
  notification is produced and the user documents are as the authenticate left them.
\<close>

theorem offline_only_without_entry:
  assumes auth: "map_get (userSockets s) sid = Some ui"
      and idle: "timers s = []"
  shows "timers (fst (on_disconnect e1 sid s)) = [(now e1 + 30000, userId ui, username ui)]
       \<and> (now e3 < now e1 + 30000 \<longrightarrow>
            on_timer e3 (fst (on_disconnect e1 sid s)) = (fst (on_disconnect e1 sid s), []))
       \<and> (\<forall>s' e uname. map_has (connectedUsers s') (userId ui) \<longrightarrow>
            offline_timeout e (userId ui) uname s' = (s', []))
       \<and> snd (on_timer e3 (fst (on_authenticate e2 sid' (userId ui) uname'
                                  (fst (on_disconnect e1 sid s))))) = []
       \<and> users (fst (on_timer e3 (fst (on_authenticate e2 sid' (userId ui) uname'
                                  (fst (on_disconnect e1 sid s))))))
           = users (fst (on_authenticate e2 sid' (userId ui) uname' (fst (on_disconnect e1 sid s))))"
proof -
  let ?d = "fst (on_disconnect e1 sid s)"
  let ?a = "fst (on_authenticate e2 sid' (userId ui) uname' ?d)"
  have t: "timers ?d = [(now e1 + 30000, userId ui, username ui)]"
    by (simp add: on_disconnect_auth[OF auth] idle)
  have early: "now e3 < now e1 + 30000 \<longrightarrow> on_timer e3 ?d = (?d, [])"
    by (simp add: on_timer_def t)
  have guard: "\<forall>s' e uname. map_has (connectedUsers s') (userId ui) \<longrightarrow>
            offline_timeout e (userId ui) uname s' = (s', [])"
    by (simp add: offline_timeout_def)
  have ta: "timers ?a = [(now e1 + 30000, userId ui, username ui)]"
    by (simp add: on_authenticate_timers t)
  have has: "map_has (connectedUsers (?a\<lparr>timers := []\<rparr>)) (userId ui)"
    using on_authenticate_has[of e2 sid' "userId ui" uname' ?d] by simp
  have r: "on_timer e3 ?a = (if now e3 < now e1 + 30000 then (?a, []) else (?a\<lparr>timers := []\<rparr>, []))"
    using has by (simp add: on_timer_def ta offline_timeout_def)
  from t early guard r show ?thesis by simp
qed

text \<open>
  The theorem of C5 at the viewer on socket 1, who disconnects at time 1000 and is back on
  socket 5 at time 2000.
\<close>

theorem offline_only_without_entry_witness:
  "map_get (userSockets chat_state) 1
     = Some \<lparr>userId = ''x'', username = ''Xia'', socketId = 1, connectedAt = 0\<rparr>
   \<and> timers chat_state = []
   \<and> timers (fst (on_disconnect (ok_env 1000) 1 chat_state)) = [(31000, ''x'', ''Xia'')]
   \<and> on_timer (ok_env 20000) (fst (on_disconnect (ok_env 1000) 1 chat_state))
       = (fst (on_disconnect (ok_env 1000) 1 chat_state), [])
   \<and> snd (on_timer (ok_env 31000)
            (fst (on_authenticate (ok_env 2000) 5 ''x'' ''Xia''
                   (fst (on_disconnect (ok_env 1000) 1 chat_state))))) = []
   \<and> users (fst (on_timer (ok_env 31000)
            (fst (on_authenticate (ok_env 2000) 5 ''x'' ''Xia''
                   (fst (on_disconnect (ok_env 1000) 1 chat_state))))))
       = users (fst (on_authenticate (ok_env 2000) 5 ''x'' ''Xia''
                   (fst (on_disconnect (ok_env 1000) 1 chat_state))))"
proof -
  have idle: "timers chat_state = []"
    by (simp add: chat_state_eq db_state_def init_def)
  have t: "now (ok_env 20000) < now (ok_env 1000) + 30000" "now (ok_env 1000) + 30000 = 31000"
    by (simp_all add: ok_env_def)
  from offline_only_without_entry[OF chat_state_sockets(1) idle,
         of "ok_env 1000" "ok_env 20000" "ok_env 2000" 5 "''Xia''"]
       offline_only_without_entry[OF chat_state_sockets(1) idle,
         of "ok_env 1000" "ok_env 31000" "ok_env 2000" 5 "''Xia''"]
  show ?thesis using chat_state_sockets(1) idle t by simp
qed

text \<open>
  Claim C5 as stated fails, because \<open>connectedUsers\<close> keeps one socket for each user and the
  disconnect of any socket of the user deletes the entry. The only socket of the streamer
  closes, the streamer is back on two sockets within the window and one of them closes:
  the first callback then fires the offline transition while socket 3 is still open and
  authenticated as the streamer.
\<close>

theorem offline_despite_open_socket_counterexample:
  "map_option userId (map_get (userSockets reconnect_state) 3) = Some ''s''
   \<and> timers reconnect_state = [(31000, ''s'', ''Sam''), (34000, ''s'', ''Sam'')]
   \<and> snd (on_timer (ok_env 31000) reconnect_state)
       = [ToRoom (UserRoom ''x'')
            (Notification (user_offline_notification (ok_env 31000) ''s'' ''Sam''))]
   \<and> map_option isOnline (map_of (users (fst (on_timer (ok_env 31000) reconnect_state))) ''s'')
       = Some False
   \<and> map_option userId
         (map_get (userSockets (fst (on_timer (ok_env 31000) reconnect_state))) 3) = Some ''s''"
  by (simp add: reconnect_state_eq eval_defs)





subsection \<open>Every reachable state is well formed\<close>





























subsection \<open>The count that is broadcast\<close>




























end
